theory Spec2Isabelle
  imports Complex_Main
begin

section \<open>JavaScript values\<close>

text \<open>
  A JavaScript string is a sequence of UTF-16 code units; \<open>length\<close> counts code units,
  as \<open>String.prototype.length\<close> does. \<open>js\<close> turns an ASCII literal into its code units.
\<close>

type_synonym jsstring = "nat list"

definition js :: "string \<Rightarrow> jsstring" where
  "js s = map of_char s"

text \<open>
  A JavaScript number is NaN, an infinity or a finite value. Finite values are kept as exact
  rationals: the rounding of IEEE doubles is not modelled, which makes no difference for the
  integers of magnitude below \<open>2 ^ 53\<close> and the comparisons against integer constants met in
  this program. Negative zero is identified with zero (the two compare equal in every operation
  used here).
\<close>

datatype jsnum = NaN | NegInf | Fin rat | PosInf

datatype jsval =
    JUndefined
  | JNull
  | JBool bool
  | JNum jsnum
  | JStr jsstring
  | JArr "jsval list"
  | JObj "(jsstring \<times> jsval) list"

text \<open>ToBoolean: what \<open>!x\<close>, \<open>x || y\<close> and \<open>if (x)\<close> test.\<close>

fun truthy :: "jsval \<Rightarrow> bool" where
  "truthy JUndefined = False"
| "truthy JNull = False"
| "truthy (JBool b) = b"
| "truthy (JNum n) = (n \<noteq> NaN \<and> n \<noteq> Fin 0)"
| "truthy (JStr s) = (s \<noteq> [])"
| "truthy (JArr xs) = True"
| "truthy (JObj kvs) = True"

text \<open>
  Reading a property of a value that is neither \<open>undefined\<close> nor \<open>null\<close>. The properties
  read in this program (\<open>code\<close>, \<open>message\<close>, \<open>data\<close>) are no built-in properties of
  booleans, numbers, strings or arrays, so only an object's own entries can supply them.
  On \<open>undefined\<close> and \<open>null\<close> JavaScript raises a TypeError; every read below is guarded
  by a truthiness test.
\<close>

fun get_prop :: "jsval \<Rightarrow> jsstring \<Rightarrow> jsval" where
  "get_prop (JObj kvs) k = (case map_of kvs k of Some v \<Rightarrow> v | None \<Rightarrow> JUndefined)"
| "get_prop v k = JUndefined"

text \<open>\<open>a || b\<close>\<close>

definition js_or :: "jsval \<Rightarrow> jsval \<Rightarrow> jsval" where
  "js_or a b = (if truthy a then a else b)"

section \<open>lib/tauri: invokeCommand\<close>

text \<open>
  \<open>await invoke(command, payload)\<close> either resolves with the backend's response or rejects;
  a rejection propagates out of \<open>invokeCommand\<close> unchanged. \<open>JsError m\<close> is
  \<open>new Error(m)\<close>, \<open>Rejection e\<close> the propagated rejection.
\<close>

datatype invoke_outcome = Resolved jsval | Rejected jsval

datatype js_exception = JsError jsval | Rejection jsval

definition invokeCommand :: "invoke_outcome \<Rightarrow> js_exception + jsval" where
  "invokeCommand outcome =
     (case outcome of
        Rejected e \<Rightarrow> Inl (Rejection e)
      | Resolved response \<Rightarrow>
          if \<not> truthy response then Inl (JsError (JStr (js ''Empty response'')))
          else if (case get_prop response (js ''code'') of
                     JNum c \<Rightarrow> c \<noteq> Fin 0
                   | _ \<Rightarrow> False)
          then Inl (JsError (js_or (get_prop response (js ''message''))
                                   (JStr (js ''Request failed''))))
          else Inr (get_prop response (js ''data'')))"

text \<open>The two conditions in the specification's words: the response is absent, the response has a
  numeric \<open>code\<close> other than 0.\<close>

definition absent :: "jsval \<Rightarrow> bool" where
  "absent r = (r = JUndefined \<or> r = JNull)"

definition numeric_code_nonzero :: "jsval \<Rightarrow> bool" where
  "numeric_code_nonzero r = (\<exists>c. get_prop r (js ''code'') = JNum c \<and> c \<noteq> Fin 0)"

definition falsy_present :: "jsval \<Rightarrow> bool" where
  "falsy_present r =
     (r = JBool False \<or> r = JNum (Fin 0) \<or> r = JNum NaN \<or> r = JStr [])"

section \<open>SubmissionSyncSection: actions offered for a sync task\<close>

text \<open>Of a task the row reads \<open>id\<close> and \<open>status\<close> to decide which buttons it renders.\<close>

record sync_task =
  task_id :: jsval
  status :: jsval

text \<open>\<open>Array.prototype.includes\<close> on an array of string literals: SameValueZero equals a
  string only to a string with the same code units.\<close>

definition array_includes :: "jsstring list \<Rightarrow> jsval \<Rightarrow> bool" where
  "array_includes xs v = (case v of JStr s \<Rightarrow> s \<in> set xs | _ \<Rightarrow> False)"

definition canPause :: "sync_task \<Rightarrow> bool" where
  "canPause task = array_includes [js ''PENDING'', js ''UPLOADING''] (status task)"

definition canRetry :: "sync_task \<Rightarrow> bool" where
  "canRetry task =
     array_includes [js ''FAILED'', js ''CANCELLED'', js ''PAUSED'', js ''SUCCESS''] (status task)"

text \<open>The buttons of a row, in rendering order, each with the backend command its handler
  invokes on the task's id.\<close>

datatype sync_action = RetryAction | PauseAction | DeleteAction

fun action_command :: "sync_action \<Rightarrow> jsstring" where
  "action_command RetryAction = js ''baidu_sync_retry''"
| "action_command PauseAction = js ''baidu_sync_pause''"
| "action_command DeleteAction = js ''baidu_sync_delete''"

definition row_actions :: "sync_task \<Rightarrow> sync_action list" where
  "row_actions task =
     (if canRetry task then [RetryAction] else []) @
     (if canPause task then [PauseAction] else []) @
     [DeleteAction]"

section \<open>DownloadSection: the workflow configuration of an integrated submission\<close>

text \<open>
  The state the component keeps for segmentation: the toggle \<open>segmentationEnabled\<close>
  (\<open>useState(true)\<close>) and \<open>workflowConfig.segmentationConfig\<close>, whose duration is set by
  \<open>Number(event.target.value)\<close> and whose flag by a checkbox.
\<close>

record segmentationConfig =
  segmentDurationSeconds :: jsnum
  preserveOriginal :: bool

record workflowConfig =
  segmentationConfig :: segmentationConfig

definition defaultWorkflowConfig :: workflowConfig where
  "defaultWorkflowConfig =
     \<lparr>segmentationConfig = \<lparr>segmentDurationSeconds = Fin 133, preserveOriginal = True\<rparr>\<rparr>"

text \<open>The object \<open>buildWorkflowConfig\<close> returns.\<close>

record segmentationPayload =
  enabled :: bool
  payloadSegmentDurationSeconds :: jsnum
  payloadPreserveOriginal :: bool

record workflowPayload =
  enableSegmentation :: bool
  payloadSegmentationConfig :: segmentationPayload

definition buildWorkflowConfig :: "bool \<Rightarrow> workflowConfig \<Rightarrow> workflowPayload" where
  "buildWorkflowConfig segmentationEnabled wc =
     \<lparr>enableSegmentation = segmentationEnabled,
      payloadSegmentationConfig =
        \<lparr>enabled = segmentationEnabled,
         payloadSegmentDurationSeconds = segmentDurationSeconds (segmentationConfig wc),
         payloadPreserveOriginal = preserveOriginal (segmentationConfig wc)\<rparr>\<rparr>"

section \<open>Numbers: comparison, \<open>Math.min\<close>, \<open>Math.max\<close>, arithmetic\<close>

text \<open>\<open>a < b\<close> and \<open>a <= b\<close>: false as soon as an operand is NaN.\<close>

fun js_lt :: "jsnum \<Rightarrow> jsnum \<Rightarrow> bool" where
  "js_lt NaN b = False"
| "js_lt a NaN = False"
| "js_lt NegInf NegInf = False"
| "js_lt NegInf b = True"
| "js_lt (Fin x) (Fin y) = (x < y)"
| "js_lt (Fin x) PosInf = True"
| "js_lt (Fin x) NegInf = False"
| "js_lt PosInf b = False"

definition js_le :: "jsnum \<Rightarrow> jsnum \<Rightarrow> bool" where
  "js_le a b = (a \<noteq> NaN \<and> b \<noteq> NaN \<and> \<not> js_lt b a)"

text \<open>\<open>a > b\<close> is \<open>b < a\<close> and \<open>a >= b\<close> is \<open>b <= a\<close>.\<close>

definition js_gt :: "jsnum \<Rightarrow> jsnum \<Rightarrow> bool" where
  "js_gt a b = js_lt b a"

definition js_ge :: "jsnum \<Rightarrow> jsnum \<Rightarrow> bool" where
  "js_ge a b = js_le b a"



fun js_mul :: "jsnum \<Rightarrow> jsnum \<Rightarrow> jsnum" where
  "js_mul NaN b = NaN"
| "js_mul a NaN = NaN"
| "js_mul (Fin x) (Fin y) = Fin (x * y)"
| "js_mul (Fin x) PosInf = (if x = 0 then NaN else if 0 < x then PosInf else NegInf)"
| "js_mul (Fin x) NegInf = (if x = 0 then NaN else if 0 < x then NegInf else PosInf)"
| "js_mul PosInf (Fin y) = (if y = 0 then NaN else if 0 < y then PosInf else NegInf)"
| "js_mul NegInf (Fin y) = (if y = 0 then NaN else if 0 < y then NegInf else PosInf)"
| "js_mul PosInf PosInf = PosInf"
| "js_mul NegInf NegInf = PosInf"
| "js_mul PosInf NegInf = NegInf"
| "js_mul NegInf PosInf = NegInf"

fun js_add :: "jsnum \<Rightarrow> jsnum \<Rightarrow> jsnum" where
  "js_add NaN b = NaN"
| "js_add a NaN = NaN"
| "js_add (Fin x) (Fin y) = Fin (x + y)"
| "js_add PosInf NegInf = NaN"
| "js_add NegInf PosInf = NaN"
| "js_add PosInf b = PosInf"
| "js_add NegInf b = NegInf"
| "js_add (Fin x) b = b"


section \<open>\<open>Number(string)\<close>\<close>

text \<open>
  The conversion of a string to a number (ECMAScript StringToNumber): white space and line
  terminators are trimmed; the empty string is 0; then come the non-decimal integer literals
  (\<open>0x\<close>, \<open>0o\<close>, \<open>0b\<close>, unsigned), \<open>Infinity\<close> and decimal literals with an optional
  sign, fraction and exponent; anything else is NaN. The value of a literal is its exact
  rational (no rounding, no overflow to an infinity).
\<close>

definition is_ws :: "nat \<Rightarrow> bool" where
  "is_ws c = (c \<in> {9, 10, 11, 12, 13, 32, 160, 5760, 8232, 8233, 8239, 8287, 12288, 65279}
              \<or> (8192 \<le> c \<and> c \<le> 8202))"

definition trim :: "jsstring \<Rightarrow> jsstring" where
  "trim s = rev (dropWhile is_ws (rev (dropWhile is_ws s)))"

definition is_digit :: "nat \<Rightarrow> bool" where
  "is_digit c = (48 \<le> c \<and> c \<le> 57)"

definition digits_value :: "jsstring \<Rightarrow> nat" where
  "digits_value ds = foldl (\<lambda>a c. 10 * a + (c - 48)) 0 ds"

definition hex_digit_value :: "nat \<Rightarrow> nat option" where
  "hex_digit_value c =
     (if 48 \<le> c \<and> c \<le> 57 then Some (c - 48)
      else if 97 \<le> c \<and> c \<le> 102 then Some (c - 87)
      else if 65 \<le> c \<and> c \<le> 70 then Some (c - 55)
      else None)"

fun radix_value :: "nat \<Rightarrow> nat \<Rightarrow> jsstring \<Rightarrow> nat option" where
  "radix_value b acc [] = Some acc"
| "radix_value b acc (c # cs) =
     (case hex_digit_value c of
        None \<Rightarrow> None
      | Some d \<Rightarrow> if d < b then radix_value b (b * acc + d) cs else None)"

definition parse_non_decimal :: "jsstring \<Rightarrow> nat option" where
  "parse_non_decimal s =
     (case s of
        z # x # d # ds \<Rightarrow>
          if z \<noteq> 48 then None
          else if x = 120 \<or> x = 88 then radix_value 16 0 (d # ds)
          else if x = 111 \<or> x = 79 then radix_value 8 0 (d # ds)
          else if x = 98 \<or> x = 66 then radix_value 2 0 (d # ds)
          else None
      | _ \<Rightarrow> None)"

definition pow10 :: "int \<Rightarrow> rat" where
  "pow10 e = (if 0 \<le> e then 10 ^ nat e else 1 / 10 ^ nat (- e))"

definition parse_exponent :: "jsstring \<Rightarrow> int option" where
  "parse_exponent s =
     (case s of
        [] \<Rightarrow> Some 0
      | e # r \<Rightarrow>
          if e \<noteq> 101 \<and> e \<noteq> 69 then None
          else (case r of
                  [] \<Rightarrow> None
                | g # ds \<Rightarrow>
                    if g = 43 \<or> g = 45
                    then (if ds \<noteq> [] \<and> list_all is_digit ds
                          then Some (if g = 45 then - int (digits_value ds)
                                     else int (digits_value ds))
                          else None)
                    else (if list_all is_digit r then Some (int (digits_value r)) else None)))"

definition parse_unsigned_decimal :: "jsstring \<Rightarrow> rat option" where
  "parse_unsigned_decimal s =
     (let ip = takeWhile is_digit s; r1 = dropWhile is_digit s in
      case r1 of
        [] \<Rightarrow> if ip = [] then None else Some (of_nat (digits_value ip))
      | c # r2 \<Rightarrow>
          if c = 46
          then (let fp = takeWhile is_digit r2; r3 = dropWhile is_digit r2 in
                if ip = [] \<and> fp = [] then None
                else map_option
                       (\<lambda>e. (of_nat (digits_value ip)
                                + of_nat (digits_value fp) / 10 ^ length fp) * pow10 e)
                       (parse_exponent r3))
          else if ip = [] then None
          else map_option (\<lambda>e. of_nat (digits_value ip) * pow10 e) (parse_exponent r1))"

definition parse_decimal :: "jsstring \<Rightarrow> jsnum" where
  "parse_decimal s =
     (let neg = (s \<noteq> [] \<and> hd s = 45);
          u = (if s \<noteq> [] \<and> (hd s = 43 \<or> hd s = 45) then tl s else s)
      in if u = js ''Infinity'' then (if neg then NegInf else PosInf)
         else (case parse_unsigned_decimal u of
                 None \<Rightarrow> NaN
               | Some q \<Rightarrow> Fin (if neg then - q else q)))"

definition Number_str :: "jsstring \<Rightarrow> jsnum" where
  "Number_str s =
     (let t = trim s in
      if t = [] then Fin 0
      else (case parse_non_decimal t of
              Some n \<Rightarrow> Fin (of_nat n)
            | None \<Rightarrow> parse_decimal t))"

section \<open>SettingsSection: saving the download settings\<close>








section \<open>DownloadSection: validation of the integrated download and submission form\<close>

subsection \<open>Regular expressions\<close>

text \<open>
  The fragment of regular expressions the source uses: a character class of ranges, a literal
  character, sequence, alternative and \<open>?\<close>. \<open>rmatch r s\<close> lists what can remain of \<open>s\<close>
  after a match of \<open>r\<close> at its start; \<open>/^r$/.test(s)\<close> holds when nothing can remain.
\<close>

datatype regex =
    Class "(char \<times> char) list"
  | Lit char
  | Seq regex regex
  | Alt regex regex
  | Opt regex

definition in_class :: "(char \<times> char) list \<Rightarrow> nat \<Rightarrow> bool" where
  "in_class rs c = list_ex (\<lambda>(lo, hi). of_char lo \<le> c \<and> c \<le> of_char hi) rs"

fun rmatch :: "regex \<Rightarrow> jsstring \<Rightarrow> jsstring list" where
  "rmatch (Class rs) s = (case s of [] \<Rightarrow> [] | c # cs \<Rightarrow> if in_class rs c then [cs] else [])"
| "rmatch (Lit a) s = (case s of [] \<Rightarrow> [] | c # cs \<Rightarrow> if c = of_char a then [cs] else [])"
| "rmatch (Seq a b) s = concat (map (rmatch b) (rmatch a s))"
| "rmatch (Alt a b) s = rmatch a s @ rmatch b s"
| "rmatch (Opt a) s = rmatch a s @ [s]"

definition regex_test :: "regex \<Rightarrow> jsstring \<Rightarrow> bool" where
  "regex_test r s = ([] \<in> set (rmatch r s))"

subsection \<open>Time strings\<close>

text \<open>\<open>/^([0-1]?[0-9]|2[0-3]):[0-5][0-9]:[0-5][0-9]$/\<close>\<close>

definition time_regex :: regex where
  "time_regex =
     Seq (Alt (Seq (Opt (Class [(CHR ''0'', CHR ''1'')])) (Class [(CHR ''0'', CHR ''9'')]))
              (Seq (Lit CHR ''2'') (Class [(CHR ''0'', CHR ''3'')])))
    (Seq (Lit CHR '':'')
    (Seq (Class [(CHR ''0'', CHR ''5'')])
    (Seq (Class [(CHR ''0'', CHR ''9'')])
    (Seq (Lit CHR '':'')
    (Seq (Class [(CHR ''0'', CHR ''5'')])
         (Class [(CHR ''0'', CHR ''9'')]))))))"

definition isValidTimeFormat :: "jsstring \<Rightarrow> bool" where
  "isValidTimeFormat v = (if v = [] then True else regex_test time_regex v)"

text \<open>\<open>value.split(sep)\<close> for a one-character separator.\<close>

fun split_on :: "nat \<Rightarrow> jsstring \<Rightarrow> jsstring list" where
  "split_on sep [] = [[]]"
| "split_on sep (c # cs) =
     (if c = sep then [] # split_on sep cs
      else (case split_on sep cs of
              [] \<Rightarrow> [[c]]
            | f # fs \<Rightarrow> (c # f) # fs))"

definition timeToSeconds :: "jsstring \<Rightarrow> jsnum" where
  "timeToSeconds v =
     (if v = [] then Fin 0
      else (let parts = map Number_str (split_on (of_char CHR '':'') v) in
            if length parts \<noteq> 3 \<or> list_ex (\<lambda>item. item = NaN) parts then Fin 0
            else js_add (js_add (js_mul (parts ! 0) (Fin 3600)) (js_mul (parts ! 1) (Fin 60)))
                        (parts ! 2)))"

subsection \<open>The form\<close>

text \<open>
  The pieces of component state the validation reads. Every text field is a string;
  \<open>selectedCount\<close> is \<open>selectedParts.length\<close>; a part's \<open>startTime\<close> and \<open>endTime\<close> are
  strings (\<open>"00:00:00"\<close>, the formatted duration, or the text typed into the field).
\<close>

record downloadConfig =
  resolution :: jsstring
  codec :: jsstring
  format :: jsstring

record submissionConfig =
  title :: jsstring
  description :: jsstring
  partitionId :: jsstring
  videoType :: jsstring

record partConfig =
  startTime :: jsstring
  endTime :: jsstring

record form_state =
  selectedCount :: nat
  downloadConfig :: downloadConfig
  submissionConfig :: submissionConfig
  tags :: "jsstring list"
  tagInput :: jsstring
  segmentationEnabled :: bool
  workflowConfig :: workflowConfig
  selectedPartsConfig :: "partConfig list"

text \<open>
  The messages of \<open>{ valid: false, message }\<close>, in the order of the source:
  no part selected; no resolution; no codec; no stream format; empty title; title longer than
  80; no partition; no video type; description longer than 2000; no tag; segment duration
  outside 30-600 seconds; start time of part \<open>n\<close> malformed; end time of part \<open>n\<close>
  malformed; start time of part \<open>n\<close> not before its end time.
\<close>

datatype validation_message =
    NoPartSelected
  | NoResolution
  | NoCodec
  | NoFormat
  | NoTitle
  | TitleTooLong
  | NoPartition
  | NoVideoType
  | DescriptionTooLong
  | NoTag
  | SegmentDurationOutOfRange
  | StartTimeFormat nat
  | EndTimeFormat nat
  | StartNotBeforeEnd nat

datatype validation = Invalid validation_message | Valid

fun valid :: "validation \<Rightarrow> bool" where
  "valid Valid = True"
| "valid (Invalid m) = False"

text \<open>\<open>Array.from(new Set(xs))\<close>: the first occurrence of each element, in order.\<close>

fun unique_in_order :: "'a list \<Rightarrow> 'a list" where
  "unique_in_order [] = []"
| "unique_in_order (x # xs) = x # unique_in_order (filter (\<lambda>y. y \<noteq> x) xs)"

text \<open>The loop over \<open>selectedPartsConfig\<close>, from position \<open>index\<close> on.\<close>

fun check_parts :: "nat \<Rightarrow> partConfig list \<Rightarrow> validation" where
  "check_parts index [] = Valid"
| "check_parts index (part # rest) =
     (if \<not> isValidTimeFormat (startTime part) then Invalid (StartTimeFormat (index + 1))
      else if \<not> isValidTimeFormat (endTime part) then Invalid (EndTimeFormat (index + 1))
      else if startTime part \<noteq> [] \<and> endTime part \<noteq> []
              \<and> js_ge (timeToSeconds (startTime part)) (timeToSeconds (endTime part))
      then Invalid (StartNotBeforeEnd (index + 1))
      else check_parts (index + 1) rest)"

definition validateIntegrationForm :: "form_state \<Rightarrow> validation" where
  "validateIntegrationForm st =
     (if selectedCount st = 0 then Invalid NoPartSelected
      else if resolution (downloadConfig st) = [] then Invalid NoResolution
      else if codec (downloadConfig st) = [] then Invalid NoCodec
      else if format (downloadConfig st) = [] then Invalid NoFormat
      else if trim (title (submissionConfig st)) = [] then Invalid NoTitle
      else if length (title (submissionConfig st)) > 80 then Invalid TitleTooLong
      else if partitionId (submissionConfig st) = [] then Invalid NoPartition
      else if videoType (submissionConfig st) = [] then Invalid NoVideoType
      else if description (submissionConfig st) \<noteq> []
              \<and> length (description (submissionConfig st)) > 2000
      then Invalid DescriptionTooLong
      else if unique_in_order
                (tags st @ (if trim (tagInput st) \<noteq> [] then [trim (tagInput st)] else [])) = []
      then Invalid NoTag
      else if segmentationEnabled st
              \<and> (js_lt (segmentDurationSeconds (segmentationConfig (workflowConfig st))) (Fin 30)
                   \<or> js_gt (segmentDurationSeconds (segmentationConfig (workflowConfig st)))
                        (Fin 600))
      then Invalid SegmentDurationOutOfRange
      else check_parts 0 (selectedPartsConfig st))"

definition example_form :: "jsnum \<Rightarrow> partConfig list \<Rightarrow> form_state" where
  "example_form duration parts =
     \<lparr>selectedCount = length parts,
      downloadConfig = \<lparr>resolution = js ''80'', codec = js ''avc1.640032'', format = js ''dash''\<rparr>,
      submissionConfig = \<lparr>title = js ''clip'', description = [], partitionId = js ''21'',
                          videoType = js ''ORIGINAL''\<rparr>,
      tags = [js ''game''],
      tagInput = [],
      segmentationEnabled = True,
      workflowConfig =
        \<lparr>segmentationConfig = \<lparr>segmentDurationSeconds = duration, preserveOriginal = True\<rparr>\<rparr>,
      selectedPartsConfig = parts\<rparr>"

subsection \<open>The time format in words\<close>




section \<open>The persisted state layout\<close>

subsection \<open>Schema definitions as data\<close>

text \<open>
  The \<open>CREATE TABLE\<close> statements of the schema file, transcribed clause by clause: every
  column with its declared type and its column constraints in source order, then the table
  constraints. Every foreign key of the file is \<open>ON DELETE CASCADE\<close>. The
  \<open>CREATE INDEX\<close> statements (none of them \<open>UNIQUE\<close>) and the seed rows constrain
  nothing and are left out.
\<close>

datatype sqlval = SNull | SInt int | SReal rat | SText string

datatype coltype = INTEGER | TEXT | REAL

datatype col_constraint =
    PRIMARY_KEY
  | AUTOINCREMENT
  | NOT_NULL
  | UNIQUE
  | DEFAULT sqlval
  | CHECK_EQ sqlval

datatype column = Column (cname: string) (ctype: coltype) (ccons: "col_constraint list")

datatype table_constraint =
    UNIQUE_OF "string list"
  | FOREIGN_KEY_CASCADE string string string

datatype table_def =
  Table (tname: string) (tcols: "column list") (tcons: "table_constraint list")












definition workflow_steps :: table_def where
  "workflow_steps =
     Table ''workflow_steps''
       [Column ''step_id'' TEXT [PRIMARY_KEY],
        Column ''instance_id'' TEXT [NOT_NULL],
        Column ''step_name'' TEXT [NOT_NULL],
        Column ''step_type'' TEXT [NOT_NULL],
        Column ''step_order'' INTEGER [NOT_NULL],
        Column ''status'' TEXT [NOT_NULL, DEFAULT (SText ''PENDING'')],
        Column ''progress'' REAL [DEFAULT (SReal 0)],
        Column ''input_data'' TEXT [],
        Column ''output_data'' TEXT [],
        Column ''error_message'' TEXT [],
        Column ''retry_count'' INTEGER [DEFAULT (SInt 0)],
        Column ''max_retries'' INTEGER [DEFAULT (SInt 3)],
        Column ''started_at'' TEXT [],
        Column ''completed_at'' TEXT [],
        Column ''created_at'' TEXT [NOT_NULL],
        Column ''updated_at'' TEXT [NOT_NULL]]
       [UNIQUE_OF [''instance_id'', ''step_order''],
        FOREIGN_KEY_CASCADE ''instance_id'' ''workflow_instances'' ''instance_id'']"






definition live_record_task :: table_def where
  "live_record_task =
     Table ''live_record_task''
       [Column ''id'' INTEGER [PRIMARY_KEY, AUTOINCREMENT],
        Column ''room_id'' TEXT [NOT_NULL],
        Column ''status'' TEXT [NOT_NULL],
        Column ''file_path'' TEXT [NOT_NULL],
        Column ''segment_index'' INTEGER [NOT_NULL],
        Column ''start_time'' TEXT [NOT_NULL],
        Column ''end_time'' TEXT [],
        Column ''file_size'' INTEGER [DEFAULT (SInt 0)],
        Column ''title'' TEXT [],
        Column ''error_message'' TEXT [],
        Column ''create_time'' TEXT [NOT_NULL],
        Column ''update_time'' TEXT [NOT_NULL]]
       []"



subsection \<open>What a table accepts\<close>

text \<open>
  SQLite's treatment of the declared constraints, for one table. A row gives every column a
  value, as stored (after type affinity). A statement inserts a row from the values supplied
  for some columns, updates the row at a position, or deletes it; a statement that violates
  a constraint fails and leaves the table as it was. \<open>UPDATE\<close> and \<open>DELETE\<close> of several
  rows, \<open>INSERT OR REPLACE\<close>, upserts and cascading deletes are sequences of these. With
  \<open>PRAGMA foreign_keys = ON\<close> a foreign key can only reject further statements or delete
  further rows, so it is not needed to bound what a table can hold.
\<close>

type_synonym row = "(string \<times> sqlval) list"

definition get_col :: "row \<Rightarrow> string \<Rightarrow> sqlval" where
  "get_col r c = (case map_of r c of Some v \<Rightarrow> v | None \<Rightarrow> SNull)"

record table_state =
  rows :: "row list"
  seq :: int

definition empty_table :: table_state where
  "empty_table = \<lparr>rows = [], seq = 0\<rparr>"

datatype stmt =
    Insert "(string \<times> sqlval) list"
  | Update nat "(string \<times> sqlval) list"
  | Delete nat

datatype sql_error =
    NoSuchColumn string
  | DatatypeMismatch
  | NotNull string
  | CheckFailed string
  | UniqueViolation "string list"

text \<open>Equality of two stored values; NULL equals nothing, an integer equals the real of
  the same value, text is compared byte by byte (the default collation).\<close>

fun sql_equal :: "sqlval \<Rightarrow> sqlval \<Rightarrow> bool" where
  "sql_equal (SInt a) (SInt b) = (a = b)"
| "sql_equal (SReal a) (SReal b) = (a = b)"
| "sql_equal (SInt a) (SReal b) = (of_int a = b)"
| "sql_equal (SReal a) (SInt b) = (a = of_int b)"
| "sql_equal (SText a) (SText b) = (a = b)"
| "sql_equal a b = False"

fun default_of :: "col_constraint list \<Rightarrow> sqlval" where
  "default_of [] = SNull"
| "default_of (DEFAULT v # ks) = v"
| "default_of (k # ks) = default_of ks"

text \<open>A column declared \<open>INTEGER PRIMARY KEY\<close> is the table's rowid.\<close>

definition rowid_alias :: "table_def \<Rightarrow> string option" where
  "rowid_alias t =
     map_option cname
       (find (\<lambda>c. ctype c = INTEGER \<and> PRIMARY_KEY \<in> set (ccons c)) (tcols t))"

definition autoincrement :: "table_def \<Rightarrow> bool" where
  "autoincrement t = list_ex (\<lambda>c. AUTOINCREMENT \<in> set (ccons c)) (tcols t)"

fun table_unique :: "table_constraint \<Rightarrow> string list list" where
  "table_unique (UNIQUE_OF cs) = [cs]"
| "table_unique (FOREIGN_KEY_CASCADE c t' c') = []"

text \<open>The column sets that carry a unique index: primary keys, \<open>UNIQUE\<close> columns and the
  table's \<open>UNIQUE (...)\<close> clauses.\<close>

definition unique_sets :: "table_def \<Rightarrow> string list list" where
  "unique_sets t =
     map (\<lambda>c. [cname c])
       (filter (\<lambda>c. PRIMARY_KEY \<in> set (ccons c) \<or> UNIQUE \<in> set (ccons c)) (tcols t))
     @ concat (map table_unique (tcons t))"

definition not_null_cols :: "table_def \<Rightarrow> string list" where
  "not_null_cols t = map cname (filter (\<lambda>c. NOT_NULL \<in> set (ccons c)) (tcols t))"

text \<open>Two rows collide on a unique index when they agree on all its columns with values
  that are not NULL.\<close>

definition conflict :: "string list \<Rightarrow> row \<Rightarrow> row \<Rightarrow> bool" where
  "conflict cols a b = list_all (\<lambda>c. sql_equal (get_col a c) (get_col b c)) cols"

fun check_fails :: "sqlval \<Rightarrow> col_constraint \<Rightarrow> bool" where
  "check_fails v (CHECK_EQ w) = (v \<noteq> SNull \<and> \<not> sql_equal v w)"
| "check_fails v k = False"

definition check_row :: "table_def \<Rightarrow> row list \<Rightarrow> row \<Rightarrow> sql_error option" where
  "check_row t others r =
     (case find (\<lambda>c. get_col r c = SNull) (not_null_cols t) of
        Some c \<Rightarrow> Some (NotNull c)
      | None \<Rightarrow>
     (case find (\<lambda>c. list_ex (check_fails (get_col r (cname c))) (ccons c)) (tcols t) of
        Some c \<Rightarrow> Some (CheckFailed (cname c))
      | None \<Rightarrow>
     (case find (\<lambda>u. list_ex (conflict u r) others) (unique_sets t) of
        Some u \<Rightarrow> Some (UniqueViolation u)
      | None \<Rightarrow> None)))"

fun int_values :: "sqlval list \<Rightarrow> int list" where
  "int_values [] = []"
| "int_values (SInt n # vs) = n # int_values vs"
| "int_values (v # vs) = int_values vs"

text \<open>The rowid given to a row inserted without one: one more than the largest rowid in the
  table, and with \<open>AUTOINCREMENT\<close> also more than the largest ever given (\<open>seq\<close>).\<close>

definition next_rowid :: "table_def \<Rightarrow> table_state \<Rightarrow> string \<Rightarrow> int" where
  "next_rowid t st a =
     (let ids = int_values (map (\<lambda>r. get_col r a) (rows st));
          m = (if ids = [] then 0 else fold max ids (hd ids))
      in if autoincrement t then max m (seq st) + 1 else m + 1)"

definition set_col :: "row \<Rightarrow> string \<Rightarrow> sqlval \<Rightarrow> row" where
  "set_col r c v = map (\<lambda>(n, w). (n, if n = c then v else w)) r"

definition assign :: "row \<Rightarrow> (string \<times> sqlval) list \<Rightarrow> row" where
  "assign r as = map (\<lambda>(n, w). (n, case map_of as n of Some v \<Rightarrow> v | None \<Rightarrow> w)) r"

definition unknown_column :: "table_def \<Rightarrow> (string \<times> sqlval) list \<Rightarrow> string option" where
  "unknown_column t as = find (\<lambda>n. n \<notin> set (map cname (tcols t))) (map fst as)"

text \<open>The row an \<open>INSERT\<close> builds: the supplied values, the declared defaults (NULL where
  none is declared) for the other columns, and a fresh rowid where the rowid is NULL.\<close>

definition new_row :: "table_def \<Rightarrow> table_state \<Rightarrow> (string \<times> sqlval) list \<Rightarrow> row" where
  "new_row t st as =
     (let r = map (\<lambda>c. (cname c, case map_of as (cname c) of
                                     Some v \<Rightarrow> v
                                   | None \<Rightarrow> default_of (ccons c))) (tcols t)
      in case rowid_alias t of
           None \<Rightarrow> r
         | Some a \<Rightarrow> if get_col r a = SNull then set_col r a (SInt (next_rowid t st a)) else r)"

definition rowid_mismatch :: "table_def \<Rightarrow> row \<Rightarrow> bool" where
  "rowid_mismatch t r =
     (case rowid_alias t of
        None \<Rightarrow> False
      | Some a \<Rightarrow> (case get_col r a of SInt n \<Rightarrow> False | _ \<Rightarrow> True))"

definition new_seq :: "table_def \<Rightarrow> table_state \<Rightarrow> row \<Rightarrow> int" where
  "new_seq t st r =
     (case rowid_alias t of
        None \<Rightarrow> seq st
      | Some a \<Rightarrow> (case get_col r a of
                     SInt n \<Rightarrow> if autoincrement t then max (seq st) n else seq st
                   | _ \<Rightarrow> seq st))"

fun exec :: "table_def \<Rightarrow> stmt \<Rightarrow> table_state \<Rightarrow> sql_error + table_state" where
  "exec t (Insert as) st =
     (case unknown_column t as of
        Some n \<Rightarrow> Inl (NoSuchColumn n)
      | None \<Rightarrow>
          (let r = new_row t st as in
           if rowid_mismatch t r then Inl DatatypeMismatch
           else (case check_row t (rows st) r of
                   Some e \<Rightarrow> Inl e
                 | None \<Rightarrow> Inr \<lparr>rows = rows st @ [r], seq = new_seq t st r\<rparr>)))"
| "exec t (Update i as) st =
     (case unknown_column t as of
        Some n \<Rightarrow> Inl (NoSuchColumn n)
      | None \<Rightarrow>
          if length (rows st) \<le> i then Inr st
          else (let r = assign (rows st ! i) as in
                if rowid_mismatch t r then Inl DatatypeMismatch
                else (case check_row t (take i (rows st) @ drop (Suc i) (rows st)) r of
                        Some e \<Rightarrow> Inl e
                      | None \<Rightarrow> Inr (st\<lparr>rows := (rows st)[i := r]\<rparr>))))"
| "exec t (Delete i) st = Inr (st\<lparr>rows := take i (rows st) @ drop (Suc i) (rows st)\<rparr>)"

text \<open>A sequence of statements, each of them accepted.\<close>

fun run :: "table_def \<Rightarrow> stmt list \<Rightarrow> table_state \<Rightarrow> sql_error + table_state" where
  "run t [] st = Inr st"
| "run t (s # ss) st = (case exec t s st of Inl e \<Rightarrow> Inl e | Inr st' \<Rightarrow> run t ss st')"

text \<open>What the declared constraints promise of a table's rows.\<close>

definition table_ok :: "table_def \<Rightarrow> table_state \<Rightarrow> bool" where
  "table_ok t st =
     (list_all (\<lambda>u. sorted_wrt (\<lambda>a b. \<not> conflict u a b) (rows st)) (unique_sets t)
      \<and> list_all (\<lambda>c. list_all (\<lambda>r. get_col r c \<noteq> SNull) (rows st)) (not_null_cols t)
      \<and> list_all (\<lambda>r. \<not> rowid_mismatch t r) (rows st))"

subsection \<open>Properties of the layout named by the specification\<close>





subsection \<open>Example statements\<close>

definition step_row :: "string \<Rightarrow> string \<Rightarrow> int \<Rightarrow> (string \<times> sqlval) list" where
  "step_row sid inst ord =
     [(''step_id'', SText sid), (''instance_id'', SText inst), (''step_name'', SText ''clip''),
      (''step_type'', SText ''CLIP''), (''step_order'', SInt ord),
      (''created_at'', SText ''2026-01-01''), (''updated_at'', SText ''2026-01-01'')]"

definition record_row :: "string \<Rightarrow> int \<Rightarrow> (string \<times> sqlval) list" where
  "record_row path idx =
     [(''room_id'', SText ''12345''), (''status'', SText ''recording''),
      (''file_path'', SText path), (''segment_index'', SInt idx),
      (''start_time'', SText ''2026-01-01''), (''create_time'', SText ''2026-01-01''),
      (''update_time'', SText ''2026-01-01'')]"



section \<open>Theorems\<close>

lemma array_includes_iff: "array_includes xs v = (\<exists>s \<in> set xs. v = JStr s)"
  by (cases v) (auto simp: array_includes_def)

text \<open>
  C5. For every sync task, the pause button is rendered if and only if the task's status is
  the string PENDING or UPLOADING, and the retry button (whose handler invokes the backend
  command \<open>baidu_sync_retry\<close>) is rendered if and only if the status is FAILED, CANCELLED,
  PAUSED or SUCCESS.
\<close>

theorem sync_actions_offered:
  "(PauseAction \<in> set (row_actions task)) =
     (status task = JStr (js ''PENDING'') \<or> status task = JStr (js ''UPLOADING''))
   \<and> (RetryAction \<in> set (row_actions task)) =
     (status task = JStr (js ''FAILED'') \<or> status task = JStr (js ''CANCELLED'')
      \<or> status task = JStr (js ''PAUSED'') \<or> status task = JStr (js ''SUCCESS''))
   \<and> action_command RetryAction = js ''baidu_sync_retry''"
  by (auto simp: row_actions_def canPause_def canRetry_def array_includes_iff)

text \<open>
  C4. For every value of the segmentation toggle and of the segmentation settings, the
  payload built by \<open>buildWorkflowConfig\<close> carries the toggle unchanged in both
  \<open>enableSegmentation\<close> and \<open>segmentationConfig.enabled\<close>, and the configured
  \<open>segmentDurationSeconds\<close> and \<open>preserveOriginal\<close> unchanged.
\<close>

theorem buildWorkflowConfig_roundtrip:
  "enableSegmentation (buildWorkflowConfig toggle wc) = toggle
   \<and> enabled (payloadSegmentationConfig (buildWorkflowConfig toggle wc)) = toggle
   \<and> payloadSegmentDurationSeconds (payloadSegmentationConfig (buildWorkflowConfig toggle wc))
       = segmentDurationSeconds (segmentationConfig wc)
   \<and> payloadPreserveOriginal (payloadSegmentationConfig (buildWorkflowConfig toggle wc))
       = preserveOriginal (segmentationConfig wc)"
  by (simp add: buildWorkflowConfig_def)

lemma truthy_cases: "truthy r = (\<not> absent r \<and> \<not> falsy_present r)"
  by (cases r) (auto simp: absent_def falsy_present_def)

lemma numeric_code_nonzero_case:
  "(case get_prop r (js ''code'') of JNum c \<Rightarrow> c \<noteq> Fin 0 | _ \<Rightarrow> False)
     = numeric_code_nonzero r"
  by (auto simp: numeric_code_nonzero_def split: jsval.splits)

text \<open>
  C8 (refuted as stated). The response \<open>false\<close> is not absent and carries no numeric code,
  yet the call raises \<open>Error("Empty response")\<close> instead of returning the response's
  \<open>data\<close> field.
\<close>

theorem invokeCommand_false_response_raises:
  "\<not> absent (JBool False) \<and> \<not> numeric_code_nonzero (JBool False)
   \<and> invokeCommand (Resolved (JBool False)) = Inl (JsError (JStr (js ''Empty response'')))
   \<and> invokeCommand (Resolved (JBool False)) \<noteq> Inr (get_prop (JBool False) (js ''data''))"
  by (simp add: absent_def numeric_code_nonzero_def invokeCommand_def)

text \<open>
  C8 (amended). For every response value with which the backend call resolves:
  the response is truthy exactly when it is neither absent (\<open>undefined\<close>, \<open>null\<close>) nor one of
  \<open>false\<close>, \<open>0\<close>, \<open>NaN\<close>, the empty string;
  a response that is absent or one of those raises \<open>Error("Empty response")\<close>;
  a truthy response with a numeric \<open>code\<close> other than 0 raises an error, which carries the
  response's \<open>message\<close> whenever that is truthy (for instance a non-empty string) and
  \<open>"Request failed"\<close> otherwise;
  every other response makes the call return exactly the response's \<open>data\<close> field.
\<close>

theorem invokeCommand_outcomes:
  "truthy r = (\<not> absent r \<and> \<not> falsy_present r)
   \<and> (absent r \<or> falsy_present r \<longrightarrow>
        invokeCommand (Resolved r) = Inl (JsError (JStr (js ''Empty response''))))
   \<and> (truthy r \<and> numeric_code_nonzero r \<longrightarrow>
        invokeCommand (Resolved r) =
          Inl (JsError (if truthy (get_prop r (js ''message''))
                        then get_prop r (js ''message'')
                        else JStr (js ''Request failed''))))
   \<and> (truthy r \<and> \<not> numeric_code_nonzero r \<longrightarrow>
        invokeCommand (Resolved r) = Inr (get_prop r (js ''data'')))"
  using truthy_cases [of r]
  by (simp add: invokeCommand_def numeric_code_nonzero_case js_or_def)

theorem invokeCommand_outcomes_witness:
  "invokeCommand (Resolved JNull) = Inl (JsError (JStr (js ''Empty response'')))
   \<and> invokeCommand (Resolved (JObj [(js ''code'', JNum (Fin 500)),
                                     (js ''message'', JStr (js ''boom''))]))
       = Inl (JsError (JStr (js ''boom'')))
   \<and> invokeCommand (Resolved (JObj [(js ''code'', JNum (Fin 0)),
                                     (js ''data'', JStr (js ''ok''))]))
       = Inr (JStr (js ''ok''))"
  using invokeCommand_outcomes [of JNull]
    invokeCommand_outcomes [of "JObj [(js ''code'', JNum (Fin 500)),
                                      (js ''message'', JStr (js ''boom''))]"]
    invokeCommand_outcomes [of "JObj [(js ''code'', JNum (Fin 0)),
                                      (js ''data'', JStr (js ''ok''))]"]
  by (simp add: absent_def falsy_present_def numeric_code_nonzero_def js_def)












lemma js_Cons_neq_Nil: "js (c # cs) \<noteq> []"
  by (simp add: js_def)

lemma length_js: "length (js s) = length s"
  by (simp add: js_def)

lemma trim_clip: "trim (js ''clip'') = js ''clip''"
  by (simp add: trim_def js_def is_ws_def)

lemma check_parts_message:
  "check_parts i ps \<noteq> Invalid SegmentDurationOutOfRange"
  by (induction ps arbitrary: i) auto

text \<open>
  C9. With the segmentation toggle enabled, the validation rejects every form whose
  \<open>segmentDurationSeconds\<close> is below 30 or above 600; for a duration from 30 to 600 the
  validation never reports the duration error and gives the result it gives with the toggle
  off, so this check accepts every value of the closed interval.
\<close>

theorem segment_duration_bounds:
  assumes "d = segmentDurationSeconds (segmentationConfig (workflowConfig st))"
  shows "(segmentationEnabled st \<and> (js_lt d (Fin 30) \<or> js_gt d (Fin 600))
            \<longrightarrow> \<not> valid (validateIntegrationForm st))
         \<and> (js_le (Fin 30) d \<and> js_le d (Fin 600)
            \<longrightarrow> validateIntegrationForm st \<noteq> Invalid SegmentDurationOutOfRange
                \<and> validateIntegrationForm st =
                    validateIntegrationForm (st\<lparr>segmentationEnabled := False\<rparr>))"
  using assms check_parts_message [of 0 "selectedPartsConfig st"]
  by (simp add: validateIntegrationForm_def js_le_def js_gt_def)

theorem segment_duration_bounds_witness:
  "validateIntegrationForm (example_form (Fin 29) [\<lparr>startTime = [], endTime = []\<rparr>])
     = Invalid SegmentDurationOutOfRange
   \<and> validateIntegrationForm (example_form (Fin 601) [\<lparr>startTime = [], endTime = []\<rparr>])
     = Invalid SegmentDurationOutOfRange
   \<and> validateIntegrationForm (example_form (Fin 133) [\<lparr>startTime = [], endTime = []\<rparr>])
     = Valid"
  using segment_duration_bounds [of "Fin 29" "example_form (Fin 29) [\<lparr>startTime = [], endTime = []\<rparr>]"]
        segment_duration_bounds [of "Fin 601" "example_form (Fin 601) [\<lparr>startTime = [], endTime = []\<rparr>]"]
        segment_duration_bounds [of "Fin 133" "example_form (Fin 133) [\<lparr>startTime = [], endTime = []\<rparr>]"]
  by (simp add: validateIntegrationForm_def example_form_def trim_clip js_gt_def js_le_def
        isValidTimeFormat_def js_Cons_neq_Nil length_js)



lemma len_cases:
  "length (v::nat list) < 7 \<or> length v = 7 \<or> length v = 8 \<or> 8 < length v"
  by arith










lemma colon_code: "of_char CHR '':'' = (58::nat)"
  by simp






















lemma sql_equal_sym: "sql_equal a b = sql_equal b a"
  by (cases a; cases b) auto

lemma sql_equal_refl: "v \<noteq> SNull \<Longrightarrow> sql_equal v v"
  by (cases v) auto

lemma conflict_sym: "conflict u a b = conflict u b a"
  by (simp add: conflict_def sql_equal_sym)

lemma check_row_None:
  assumes "check_row t others r = None"
  shows "list_all (\<lambda>c. get_col r c \<noteq> SNull) (not_null_cols t)"
    and "list_all (\<lambda>u. list_all (\<lambda>x. \<not> conflict u r x) others) (unique_sets t)"
  using assms
  by (auto simp: check_row_def find_None_iff list_all_iff list_ex_iff split: option.splits)

lemma table_ok_append:
  assumes "table_ok t st" "\<not> rowid_mismatch t r" "check_row t (rows st) r = None"
  shows "table_ok t \<lparr>rows = rows st @ [r], seq = k\<rparr>"
  using assms check_row_None [OF assms(3)]
  by (auto simp: table_ok_def list_all_iff sorted_wrt_append conflict_sym)

lemma table_ok_update:
  assumes "table_ok t st" "i < length (rows st)" "\<not> rowid_mismatch t r"
    "check_row t (take i (rows st) @ drop (Suc i) (rows st)) r = None"
  shows "table_ok t (st\<lparr>rows := (rows st)[i := r]\<rparr>)"
proof -
  have split: "rows st = take i (rows st) @ (rows st ! i) # drop (Suc i) (rows st)"
    using assms(2) by (simp add: id_take_nth_drop [symmetric])
  have upd: "(rows st)[i := r] = take i (rows st) @ r # drop (Suc i) (rows st)"
    using assms(2) by (simp add: upd_conv_take_nth_drop)
  have ok: "list_all (\<lambda>u. sorted_wrt (\<lambda>a b. \<not> conflict u a b)
                (take i (rows st) @ (rows st ! i) # drop (Suc i) (rows st))) (unique_sets t)"
     "list_all (\<lambda>c. list_all (\<lambda>r. get_col r c \<noteq> SNull)
                (take i (rows st) @ (rows st ! i) # drop (Suc i) (rows st))) (not_null_cols t)"
     "list_all (\<lambda>r. \<not> rowid_mismatch t r)
                (take i (rows st) @ (rows st ! i) # drop (Suc i) (rows st))"
    using assms(1) split by (simp_all add: table_ok_def)
  show ?thesis
    using ok assms(3) check_row_None [OF assms(4)]
    by (auto simp: table_ok_def upd list_all_iff sorted_wrt_append conflict_sym)
qed

lemma table_ok_delete:
  assumes "table_ok t st"
  shows "table_ok t (st\<lparr>rows := take i (rows st) @ drop (Suc i) (rows st)\<rparr>)"
proof (cases "i < length (rows st)")
  case True
  have split: "rows st = take i (rows st) @ (rows st ! i) # drop (Suc i) (rows st)"
    using True by (simp add: id_take_nth_drop [symmetric])
  have ok: "list_all (\<lambda>u. sorted_wrt (\<lambda>a b. \<not> conflict u a b)
                (take i (rows st) @ (rows st ! i) # drop (Suc i) (rows st))) (unique_sets t)"
     "list_all (\<lambda>c. list_all (\<lambda>r. get_col r c \<noteq> SNull)
                (take i (rows st) @ (rows st ! i) # drop (Suc i) (rows st))) (not_null_cols t)"
     "list_all (\<lambda>r. \<not> rowid_mismatch t r)
                (take i (rows st) @ (rows st ! i) # drop (Suc i) (rows st))"
    using assms split by (simp_all add: table_ok_def)
  show ?thesis
    using ok by (auto simp: table_ok_def list_all_iff sorted_wrt_append)
next
  case False
  then show ?thesis using assms by (simp add: table_ok_def)
qed

lemma exec_table_ok:
  assumes "table_ok t st" "exec t s st = Inr st'"
  shows "table_ok t st'"
proof (cases s)
  case (Insert as)
  with assms show ?thesis
    by (auto simp: Let_def table_ok_append split: option.splits if_splits)
next
  case (Update i as)
  with assms show ?thesis
    by (auto simp: Let_def table_ok_update split: option.splits if_splits)
next
  case (Delete i)
  with assms show ?thesis
    by (auto simp: table_ok_delete)
qed

lemma run_table_ok:
  "table_ok t st \<Longrightarrow> run t ss st = Inr st' \<Longrightarrow> table_ok t st'"
  by (induction ss arbitrary: st) (auto split: sum.splits dest: exec_table_ok)

lemma table_ok_empty: "table_ok t empty_table"
  by (simp add: table_ok_def empty_table_def list_all_iff)

lemma unique_rows:
  assumes "table_ok t st" "u \<in> set (unique_sets t)"
    "\<forall>c \<in> set u. get_col (rows st ! i) c \<noteq> SNull"
    "i < length (rows st)" "j < length (rows st)"
    "\<forall>c \<in> set u. get_col (rows st ! i) c = get_col (rows st ! j) c"
  shows "i = j"
proof (rule ccontr)
  assume ne: "i \<noteq> j"
  have sw: "sorted_wrt (\<lambda>a b. \<not> conflict u a b) (rows st)"
    using assms(1,2) by (auto simp: table_ok_def list_all_iff)
  have c: "conflict u (rows st ! i) (rows st ! j)"
    using assms(3,6) by (auto simp: conflict_def list_all_iff sql_equal_refl)
  from ne consider "i < j" | "j < i" by arith
  then show False
  proof cases
    case 1
    then show False using sw c assms(5) by (auto simp: sorted_wrt_iff_nth_less)
  next
    case 2
    from c have "conflict u (rows st ! j) (rows st ! i)"
      using conflict_sym [of u "rows st ! i" "rows st ! j"] by simp
    with 2 show False using sw assms(4) by (auto simp: sorted_wrt_iff_nth_less)
  qed
qed

lemma not_null_rows:
  assumes "table_ok t st" "c \<in> set (not_null_cols t)" "i < length (rows st)"
  shows "get_col (rows st ! i) c \<noteq> SNull"
  using assms by (auto simp: table_ok_def list_all_iff)

lemma rowid_rows:
  assumes "table_ok t st" "rowid_alias t = Some a" "i < length (rows st)"
  shows "get_col (rows st ! i) a \<noteq> SNull"
proof -
  have "\<not> rowid_mismatch t (rows st ! i)"
    using assms(1,3) by (auto simp: table_ok_def list_all_iff)
  then show ?thesis
    using assms(2) by (auto simp: rowid_mismatch_def split: sqlval.splits)
qed

lemma ws_unique: "[''instance_id'', ''step_order''] \<in> set (unique_sets workflow_steps)"
  by (simp add: unique_sets_def workflow_steps_def)

lemma ws_not_null:
  "''instance_id'' \<in> set (not_null_cols workflow_steps)"
  "''step_order'' \<in> set (not_null_cols workflow_steps)"
  by (simp_all add: not_null_cols_def workflow_steps_def)

text \<open>
  C1. In every state the \<open>workflow_steps\<close> table can reach from the empty table by accepted
  statements, two rows with the same \<open>instance_id\<close> and the same \<open>step_order\<close> are the same
  row: the declared \<open>UNIQUE (instance_id, step_order)\<close>, with both columns \<open>NOT NULL\<close>,
  enforces it for every pair of rows.
\<close>

theorem workflow_steps_step_order_unique:
  assumes "run workflow_steps stmts empty_table = Inr st"
    and "i < length (rows st)" and "j < length (rows st)"
    and "get_col (rows st ! i) ''instance_id'' = get_col (rows st ! j) ''instance_id''"
    and "get_col (rows st ! i) ''step_order'' = get_col (rows st ! j) ''step_order''"
  shows "i = j"
proof -
  have ok: "table_ok workflow_steps st"
    using run_table_ok [OF table_ok_empty assms(1)] .
  have nn: "\<forall>c \<in> set [''instance_id'', ''step_order'']. get_col (rows st ! i) c \<noteq> SNull"
    using not_null_rows [OF ok ws_not_null(1) assms(2)]
      not_null_rows [OF ok ws_not_null(2) assms(2)] by simp
  show ?thesis
    using unique_rows [OF ok ws_unique nn assms(2,3)] assms(4,5) by simp
qed

lemmas exec_defs = unknown_column_def new_row_def rowid_alias_def rowid_mismatch_def
  check_row_def not_null_cols_def unique_sets_def get_col_def new_seq_def next_rowid_def
  autoincrement_def set_col_def assign_def conflict_def empty_table_def

lemma ws_run:
  "run workflow_steps [Insert (step_row ''s1'' ''w1'' 1), Insert (step_row ''s2'' ''w1'' 2)]
     empty_table
   = Inr \<lparr>rows = [new_row workflow_steps empty_table (step_row ''s1'' ''w1'' 1),
                   new_row workflow_steps empty_table (step_row ''s2'' ''w1'' 2)], seq = 0\<rparr>"
  by (simp add: step_row_def workflow_steps_def exec_defs)

theorem workflow_steps_step_order_unique_witness:
  "(case run workflow_steps
           [Insert (step_row ''s1'' ''w1'' 1), Insert (step_row ''s2'' ''w1'' 2)] empty_table of
      Inl e \<Rightarrow> False
    | Inr st \<Rightarrow>
        map (\<lambda>r. (get_col r ''instance_id'', get_col r ''step_order'')) (rows st)
          = [(SText ''w1'', SInt 1), (SText ''w1'', SInt 2)]
        \<and> exec workflow_steps (Insert (step_row ''s3'' ''w1'' 1)) st
          = Inl (UniqueViolation [''instance_id'', ''step_order'']))"
  unfolding ws_run
  using workflow_steps_step_order_unique [OF ws_run, of 1 1]
  by (simp add: step_row_def workflow_steps_def exec_defs)

lemma lrt_run:
  "run live_record_task [Insert (record_row ''a.flv'' 1), Insert (record_row ''b.flv'' 1)]
     empty_table
   = Inr \<lparr>rows = [new_row live_record_task empty_table (record_row ''a.flv'' 1),
                   new_row live_record_task
                     \<lparr>rows = [new_row live_record_task empty_table (record_row ''a.flv'' 1)],
                      seq = 1\<rparr> (record_row ''b.flv'' 1)], seq = 2\<rparr>"
  by (simp add: record_row_def live_record_task_def exec_defs)

text \<open>
  C3 (refuted as stated). The \<open>live_record_task\<close> table accepts two rows for room 12345
  with the same \<open>segment_index\<close> 1: the layout declares no uniqueness of
  \<open>(room_id, segment_index)\<close> and no ordering of the index.
\<close>

theorem live_record_task_duplicate_segment_index:
  "(case run live_record_task
           [Insert (record_row ''a.flv'' 1), Insert (record_row ''b.flv'' 1)] empty_table of
      Inl e \<Rightarrow> False
    | Inr st \<Rightarrow>
        map (\<lambda>r. (get_col r ''id'', get_col r ''room_id'', get_col r ''segment_index''))
            (rows st)
          = [(SInt 1, SText ''12345'', SInt 1), (SInt 2, SText ''12345'', SInt 1)])"
  unfolding lrt_run
  by (simp add: record_row_def live_record_task_def exec_defs)

lemma lrt_unique: "[''id''] \<in> set (unique_sets live_record_task)"
  by (simp add: unique_sets_def live_record_task_def)

lemma lrt_rowid: "rowid_alias live_record_task = Some ''id''"
  by (simp add: rowid_alias_def live_record_task_def)

lemma lrt_not_null:
  "''room_id'' \<in> set (not_null_cols live_record_task)"
  "''segment_index'' \<in> set (not_null_cols live_record_task)"
  by (simp_all add: not_null_cols_def live_record_task_def)

text \<open>
  C3 (amended). In every state the \<open>live_record_task\<close> table can reach, every row has a
  \<open>room_id\<close> and a \<open>segment_index\<close> that are not NULL, and no two rows have the same
  \<open>id\<close>: that is all the layout guarantees of a room's recordings.
\<close>

theorem live_record_task_layout:
  assumes "run live_record_task stmts empty_table = Inr st"
    and "i < length (rows st)" and "j < length (rows st)"
  shows "(get_col (rows st ! i) ''id'' = get_col (rows st ! j) ''id'' \<longrightarrow> i = j)
         \<and> get_col (rows st ! i) ''room_id'' \<noteq> SNull
         \<and> get_col (rows st ! i) ''segment_index'' \<noteq> SNull"
proof -
  have ok: "table_ok live_record_task st"
    using run_table_ok [OF table_ok_empty assms(1)] .
  have nn: "\<forall>c \<in> set [''id'']. get_col (rows st ! i) c \<noteq> SNull"
    using rowid_rows [OF ok lrt_rowid assms(2)] by simp
  have "get_col (rows st ! i) ''id'' = get_col (rows st ! j) ''id'' \<longrightarrow> i = j"
    using unique_rows [OF ok lrt_unique nn assms(2,3)] by simp
  then show ?thesis
    using not_null_rows [OF ok lrt_not_null(1) assms(2)]
      not_null_rows [OF ok lrt_not_null(2) assms(2)] by simp
qed

theorem live_record_task_layout_witness:
  "(case run live_record_task
           [Insert (record_row ''a.flv'' 1), Insert (record_row ''b.flv'' 2)] empty_table of
      Inl e \<Rightarrow> False
    | Inr st \<Rightarrow>
        length (rows st) = 2
        \<and> get_col (rows st ! 0) ''id'' \<noteq> get_col (rows st ! 1) ''id''
        \<and> get_col (rows st ! 0) ''room_id'' \<noteq> SNull
        \<and> get_col (rows st ! 0) ''segment_index'' \<noteq> SNull)"
proof -
  have r: "run live_record_task [Insert (record_row ''a.flv'' 1), Insert (record_row ''b.flv'' 2)]
     empty_table
   = Inr \<lparr>rows = [new_row live_record_task empty_table (record_row ''a.flv'' 1),
                   new_row live_record_task
                     \<lparr>rows = [new_row live_record_task empty_table (record_row ''a.flv'' 1)],
                      seq = 1\<rparr> (record_row ''b.flv'' 2)], seq = 2\<rparr>"
    by (simp add: record_row_def live_record_task_def exec_defs)
  show ?thesis
    unfolding r using live_record_task_layout [OF r, of 0 1]
    by simp
qed












end
